theory Spec2Isabelle
  imports Main "HOL-Library.Word"
begin

unbundle bit_operations_syntax

section \<open>Windows types used by \<open>rh_memory.hpp\<close>\<close>

text \<open>
  \<open>DWORD\<close> and \<open>std::uint32_t\<close> are 32-bit words. \<open>HANDLE\<close>, \<open>HWND\<close>,
  \<open>BYTE*\<close> and \<open>std::uintptr_t\<close> are pointer-sized; they are taken at 64 bits. No
  arithmetic is done on any of them by the header, only comparisons with the two
  distinguished handle values, so nothing below depends on the width beyond
  \<open>INVALID_HANDLE_VALUE \<noteq> nullptr\<close>.
\<close>

type_synonym DWORD = "32 word"
type_synonym HANDLE = "64 word"
type_synonym HWND = "64 word"
type_synonym uintptr_t = "64 word"
type_synonym byte = "8 word"

definition nullptr :: HANDLE where
  "nullptr = 0"

definition INVALID_HANDLE_VALUE :: HANDLE where
  \<comment> \<open>\<open>((HANDLE)(LONG_PTR)-1)\<close>\<close>
  "INVALID_HANDLE_VALUE = - 1"

text \<open>
  The two snapshot entry structures, with the fields the header reads. \<open>szExeFile\<close> and
  \<open>szModule\<close> are NUL-terminated \<open>CHAR\<close> arrays; the field holds the characters before
  the terminator, which is what \<open>std::string_view\<close>'s \<open>operator==\<close> compares against.
\<close>

record PROCESSENTRY32 =
  th32ProcessID :: DWORD
  szExeFile :: string

record MODULEENTRY32 =
  modBaseAddr :: uintptr_t
  szModule :: string

section \<open>The operating system as a parameter\<close>

text \<open>
  The header calls eight Win32 entry points. They are not part of the repository, so the
  model takes them as a record of functions over an arbitrary operating-system state
  \<open>'s\<close>. A call that creates or releases a kernel object, or writes foreign memory,
  returns the next state; a query does not.

  \<^item> \<open>CreateToolhelp32Snapshot\<close> returns the snapshot handle together with the entries
    that the enumeration of the snapshot delivers, in order, up to its first answer
    \<open>FALSE\<close>: \<open>Process32First\<close> copies the head of that list into the caller's entry
    and answers \<open>TRUE\<close> when there is one; every \<open>Process32Next\<close> copies the following
    entry and answers \<open>FALSE\<close> at the end. The same holds for \<open>Module32First\<close> and
    \<open>Module32Next\<close>. The process variant is the call with \<open>TH32CS_SNAPPROCESS\<close> and
    process 0, the module variant the call with
    \<open>TH32CS_SNAPMODULE | TH32CS_SNAPMODULE32\<close> and the given process.
  \<^item> \<open>FindWindowA\<close> is the call with a null class name; it answers the null window on
    failure.
  \<^item> \<open>GetWindowThreadProcessId\<close> answers the thread identifier (0 on failure) and the
    process identifier it stores through its second argument.
  \<^item> \<open>OpenProcess\<close> takes the access flags and the process identifier
    (\<open>bInheritHandle\<close> is always \<open>false\<close>) and answers the null handle on failure.
  \<^item> \<open>ReadProcessMemory\<close> takes handle, address and byte count (the last argument is
    always null); \<open>None\<close> is the answer \<open>FALSE\<close>, \<open>Some bytes\<close> the answer \<open>TRUE\<close>
    with the bytes stored into the caller's buffer.
  \<^item> \<open>WriteProcessMemory\<close> takes handle, address and the bytes of the caller's buffer,
    and answers its \<open>BOOL\<close>.
\<close>

record 's winapi =
  CreateToolhelp32Snapshot_process :: "'s \<Rightarrow> (HANDLE \<times> PROCESSENTRY32 list) \<times> 's"
  CreateToolhelp32Snapshot_module :: "'s \<Rightarrow> DWORD \<Rightarrow> (HANDLE \<times> MODULEENTRY32 list) \<times> 's"
  FindWindowA :: "'s \<Rightarrow> string \<Rightarrow> HWND"
  GetWindowThreadProcessId :: "'s \<Rightarrow> HWND \<Rightarrow> DWORD \<times> DWORD"
  OpenProcess :: "'s \<Rightarrow> DWORD \<Rightarrow> DWORD \<Rightarrow> HANDLE \<times> 's"
  CloseHandle :: "'s \<Rightarrow> HANDLE \<Rightarrow> 's"
  ReadProcessMemory :: "'s \<Rightarrow> HANDLE \<Rightarrow> uintptr_t \<Rightarrow> nat \<Rightarrow> byte list option"
  WriteProcessMemory :: "'s \<Rightarrow> HANDLE \<Rightarrow> uintptr_t \<Rightarrow> byte list \<Rightarrow> bool \<times> 's"

section \<open>\<open>HandleDisposer\<close> and \<open>unique_handle\<close>\<close>

text \<open>
  \<open>HandleDisposer::operator()\<close>: the guard is written with \<open>||\<close>, as in the header.
\<close>

definition HandleDisposer :: "'s winapi \<Rightarrow> 's \<Rightarrow> HANDLE \<Rightarrow> 's" where
  "HandleDisposer api s handle =
     (if handle \<noteq> INVALID_HANDLE_VALUE \<or> handle \<noteq> nullptr
      then CloseHandle api s handle
      else s)"

text \<open>
  The destructor of \<open>std::unique_ptr<HANDLE, HandleDisposer>\<close>: the deleter runs only
  on a stored pointer other than \<open>nullptr\<close>.
\<close>

definition unique_handle_dtor :: "'s winapi \<Rightarrow> 's \<Rightarrow> HANDLE \<Rightarrow> 's" where
  "unique_handle_dtor api s h = (if h \<noteq> nullptr then HandleDisposer api s h else s)"

section \<open>\<open>class SafeMemory\<close>\<close>

text \<open>
  The two private members. A \<open>unique_handle\<close> is represented by the \<open>HANDLE\<close> it owns.
  Both optionals are empty when the constructor body starts.
\<close>

record SafeMemory =
  m_processHandle :: "HANDLE option"
  m_processID :: "DWORD option"

definition SafeMemory_members_init :: SafeMemory where
  "SafeMemory_members_init = \<lparr>m_processHandle = None, m_processID = None\<rparr>"

text \<open>
  What a constructor can throw: \<open>std::bad_optional_access\<close> from
  \<open>std::optional::value\<close> on an empty optional, and the \<open>std::exception\<close> the
  constructors build from a message.
\<close>

datatype exn = bad_optional_access | std_exception string

definition failed_to_open :: exn where
  "failed_to_open = std_exception ''Failed to open a handle to the specified process''"

text \<open>
  Releasing the members of an object: the implicit part of \<open>~SafeMemory\<close>, which also
  runs when a constructor throws.
\<close>

definition SafeMemory_dtor :: "'s winapi \<Rightarrow> 's \<Rightarrow> SafeMemory \<Rightarrow> 's" where
  "SafeMemory_dtor api s this =
     (case m_processHandle this of
        None \<Rightarrow> s
      | Some h \<Rightarrow> unique_handle_dtor api s h)"

subsection \<open>Resolution\<close>

text \<open>
  The \<open>while (Process32Next(...))\<close> loop of \<open>AcquireProcessID\<close>, on the entries that
  follow the one \<open>Process32First\<close> has delivered.
\<close>

fun Process32Next_loop :: "string \<Rightarrow> PROCESSENTRY32 list \<Rightarrow> DWORD option" where
  "Process32Next_loop process_name [] = None"
| "Process32Next_loop process_name (processentry # rest) =
     (if process_name = szExeFile processentry
      then Some (th32ProcessID processentry)
      else Process32Next_loop process_name rest)"

text \<open>
  \<open>AcquireProcessID\<close>. The snapshot handle is a local \<open>unique_handle\<close>, destroyed on
  every return path. The entry's \<open>dwSize\<close> (set from \<open>sizeof(MODULEENTRY32)\<close>) is a
  matter of memory layout and is not represented: the enumeration is taken to accept it.
\<close>

definition AcquireProcessID :: "'s winapi \<Rightarrow> 's \<Rightarrow> string \<Rightarrow> DWORD option \<times> 's" where
  "AcquireProcessID api s process_name =
     (case CreateToolhelp32Snapshot_process api s of
        ((snapshot_handle, entries), s1) \<Rightarrow>
          (if snapshot_handle = INVALID_HANDLE_VALUE
           then (None, unique_handle_dtor api s1 snapshot_handle)
           else
             (case entries of
                [] \<Rightarrow> (None, unique_handle_dtor api s1 snapshot_handle)
              | first # rest \<Rightarrow>
                  (Process32Next_loop process_name rest,
                   unique_handle_dtor api s1 snapshot_handle))))"

text \<open>
  \<open>std::string::c_str\<close> as a C string: the characters before the first NUL.
\<close>

definition c_str :: "string \<Rightarrow> string" where
  "c_str str = takeWhile (\<lambda>c. c \<noteq> CHR 0x00) str"

definition AcquireProcessIDByWindowName :: "'s winapi \<Rightarrow> 's \<Rightarrow> string \<Rightarrow> DWORD option" where
  "AcquireProcessIDByWindowName api s window_name =
     (let window_handle = FindWindowA api s (c_str window_name) in
      if window_handle = nullptr then None
      else
        (case GetWindowThreadProcessId api s window_handle of
           (thread_id, temp_process_id) \<Rightarrow>
             if thread_id = 0 then None else Some temp_process_id))"

subsection \<open>Handle acquisition\<close>

definition CreateProcessHandle ::
  "'s winapi \<Rightarrow> 's \<Rightarrow> DWORD \<Rightarrow> DWORD \<Rightarrow> HANDLE option \<times> 's" where
  "CreateProcessHandle api s process_id processFlags =
     (case OpenProcess api s processFlags process_id of
        (processhandle, s1) \<Rightarrow>
          if processhandle = nullptr
          then (None, unique_handle_dtor api s1 processhandle)
          else (Some processhandle, s1))"

text \<open>
  \<open>AcquireProcessHandle\<close> returns its \<open>bool\<close>, the object with the member it assigned,
  and the next state. Assigning to \<open>m_processHandle\<close> releases a handle the member held
  before.
\<close>

definition AcquireProcessHandle ::
  "'s winapi \<Rightarrow> 's \<Rightarrow> SafeMemory \<Rightarrow> DWORD option \<Rightarrow> DWORD \<Rightarrow> bool \<times> SafeMemory \<times> 's" where
  "AcquireProcessHandle api s this process_id processFlags =
     (case process_id of
        None \<Rightarrow> (False, this, s)
      | Some pid \<Rightarrow>
          (case CreateProcessHandle api s pid processFlags of
             (created, s1) \<Rightarrow>
               (let s2 = SafeMemory_dtor api s1 this;
                    this1 = this\<lparr>m_processHandle := created\<rparr>
                in if created = None then (False, this1, s2) else (True, this1, s2))))"

subsection \<open>The three constructors\<close>

text \<open>
  A constructor returns either the exception it throws or the object it built, and the
  next state. The first two call \<open>process_id.value()\<close> before \<open>AcquireProcessHandle\<close>;
  the third passes the optional itself. \<open>min_window\<close> is a parameter of the second.

  All three end with the same two statements, \<open>SafeMemory_finish\<close>: throw when
  \<open>AcquireProcessHandle\<close> has answered \<open>false\<close> (the members built so far are
  released), else store the identifier in \<open>m_processID\<close>.
\<close>

definition SafeMemory_finish ::
  "'s winapi \<Rightarrow> DWORD option \<Rightarrow> bool \<times> SafeMemory \<times> 's \<Rightarrow> (exn + SafeMemory) \<times> 's" where
  "SafeMemory_finish api process_id r =
     (case r of
        (acquired, this, s) \<Rightarrow>
          if \<not> acquired
          then (Inl failed_to_open, SafeMemory_dtor api s this)
          else (Inr (this\<lparr>m_processID := process_id\<rparr>), s))"

definition SafeMemory_process_name ::
  "'s winapi \<Rightarrow> 's \<Rightarrow> string \<Rightarrow> DWORD \<Rightarrow> (exn + SafeMemory) \<times> 's" where
  "SafeMemory_process_name api s process_name processFlags =
     (case AcquireProcessID api s process_name of
        (process_id, s1) \<Rightarrow>
          (case process_id of
             None \<Rightarrow> (Inl bad_optional_access, SafeMemory_dtor api s1 SafeMemory_members_init)
           | Some v \<Rightarrow>
               SafeMemory_finish api process_id
                 (AcquireProcessHandle api s1 SafeMemory_members_init (Some v) processFlags)))"

definition SafeMemory_window_name ::
  "'s winapi \<Rightarrow> 's \<Rightarrow> string \<Rightarrow> DWORD \<Rightarrow> bool \<Rightarrow> (exn + SafeMemory) \<times> 's" where
  "SafeMemory_window_name api s window_name processFlags min_window =
     (let process_id = AcquireProcessIDByWindowName api s window_name in
      case process_id of
        None \<Rightarrow> (Inl bad_optional_access, SafeMemory_dtor api s SafeMemory_members_init)
      | Some v \<Rightarrow>
          SafeMemory_finish api process_id
            (AcquireProcessHandle api s SafeMemory_members_init (Some v) processFlags))"

definition SafeMemory_process_id ::
  "'s winapi \<Rightarrow> 's \<Rightarrow> DWORD option \<Rightarrow> DWORD \<Rightarrow> (exn + SafeMemory) \<times> 's" where
  "SafeMemory_process_id api s process_id processFlags =
     SafeMemory_finish api process_id
       (AcquireProcessHandle api s SafeMemory_members_init process_id processFlags)"

subsection \<open>Module lookup\<close>

text \<open>
  The \<open>while (Module32Next(...))\<close> loop of \<open>GetModuleBaseAddress\<close>, on the entries
  that follow the one \<open>Module32First\<close> has delivered. The \<open>reinterpret_cast\<close> of
  \<open>modBaseAddr\<close> keeps the value.
\<close>

fun Module32Next_loop :: "string \<Rightarrow> MODULEENTRY32 list \<Rightarrow> uintptr_t option" where
  "Module32Next_loop module_name [] = None"
| "Module32Next_loop module_name (moduleentry # rest) =
     (if module_name = szModule moduleentry
      then Some (modBaseAddr moduleentry)
      else Module32Next_loop module_name rest)"

definition GetModuleBaseAddress ::
  "'s winapi \<Rightarrow> 's \<Rightarrow> SafeMemory \<Rightarrow> string \<Rightarrow> uintptr_t option \<times> 's" where
  "GetModuleBaseAddress api s this module_name =
     (case m_processID this of
        None \<Rightarrow> (None, s)
      | Some pid \<Rightarrow>
          (case CreateToolhelp32Snapshot_module api s pid of
             ((snapshot_handle, entries), s1) \<Rightarrow>
               (if snapshot_handle = INVALID_HANDLE_VALUE
                then (None, unique_handle_dtor api s1 snapshot_handle)
                else
                  (case entries of
                     [] \<Rightarrow> (None, unique_handle_dtor api s1 snapshot_handle)
                   | first # rest \<Rightarrow>
                       (Module32Next_loop module_name rest,
                        unique_handle_dtor api s1 snapshot_handle)))))"

subsection \<open>Typed reads and writes\<close>

text \<open>
  The template parameter \<open>T\<close> of \<open>SafeReadMemory\<close> and \<open>SafeWriteMemory\<close>: its size
  and the two directions between a value and the bytes of the object that holds it.
  The read hands \<open>&length\<close> and \<open>sizeof(length)\<close> to the system and returns the object
  it filled; the write hands over the bytes of the referenced object.
\<close>

record 'T object_layout =
  sizeof :: nat
  object_bytes :: "'T \<Rightarrow> byte list"
  object_value :: "byte list \<Rightarrow> 'T"

definition SafeReadMemory ::
  "'s winapi \<Rightarrow> 's \<Rightarrow> SafeMemory \<Rightarrow> 'T object_layout \<Rightarrow> uintptr_t \<Rightarrow> 'T option" where
  "SafeReadMemory api s this T address_ptr =
     (case m_processHandle this of
        None \<Rightarrow> None
      | Some h \<Rightarrow>
          (case ReadProcessMemory api s h address_ptr (sizeof T) of
             None \<Rightarrow> None
           | Some bytes \<Rightarrow> Some (object_value T bytes)))"

definition SafeWriteMemory ::
  "'s winapi \<Rightarrow> 's \<Rightarrow> SafeMemory \<Rightarrow> 'T object_layout \<Rightarrow> uintptr_t \<Rightarrow> 'T \<Rightarrow> bool \<times> 's" where
  "SafeWriteMemory api s this T address_ptr length' =
     (case m_processHandle this of
        None \<Rightarrow> (False, s)
      | Some h \<Rightarrow>
          (case WriteProcessMemory api s h address_ptr (object_bytes T length') of
             (written, s1) \<Rightarrow> if \<not> written then (False, s1) else (True, s1)))"

subsection \<open>The public interface as calls on an object\<close>

text \<open>
  After construction a caller can only invoke the three public member functions; copy
  construction and copy assignment are deleted. A call takes the object and the state
  and returns its result with the object and the state after it.
\<close>

datatype 'T public_call =
    Call_GetModuleBaseAddress string
  | Call_SafeReadMemory "'T object_layout" uintptr_t
  | Call_SafeWriteMemory "'T object_layout" uintptr_t 'T

datatype 'T public_result =
    Result_address "uintptr_t option"
  | Result_value "'T option"
  | Result_written bool

fun invoke ::
  "'s winapi \<Rightarrow> 'T public_call \<Rightarrow> SafeMemory \<times> 's \<Rightarrow> 'T public_result \<times> SafeMemory \<times> 's" where
  "invoke api (Call_GetModuleBaseAddress module_name) (this, s) =
     (case GetModuleBaseAddress api s this module_name of
        (r, s1) \<Rightarrow> (Result_address r, this, s1))"
| "invoke api (Call_SafeReadMemory T address_ptr) (this, s) =
     (Result_value (SafeReadMemory api s this T address_ptr), this, s)"
| "invoke api (Call_SafeWriteMemory T address_ptr v) (this, s) =
     (case SafeWriteMemory api s this T address_ptr v of
        (r, s1) \<Rightarrow> (Result_written r, this, s1))"

fun invoke_all ::
  "'s winapi \<Rightarrow> 'T public_call list \<Rightarrow> SafeMemory \<times> 's \<Rightarrow> SafeMemory \<times> 's" where
  "invoke_all api [] os = os"
| "invoke_all api (c # cs) os = invoke_all api cs (snd (invoke api c os))"

section \<open>A small operating system to run the model on\<close>

text \<open>
  The access rights of \<open>winnt.h\<close> that the enumeration \<open>SafeMemory_Access\<close> names, and
  \<open>PROCESS_VM_OPERATION\<close>, which \<open>WriteProcessMemory\<close> asks for besides
  \<open>PROCESS_VM_WRITE\<close>.
\<close>

definition PROCESS_VM_OPERATION :: DWORD where
  "PROCESS_VM_OPERATION = 0x0008"

definition PROCESS_VM_READ :: DWORD where
  "PROCESS_VM_READ = 0x0010"

definition PROCESS_VM_WRITE :: DWORD where
  "PROCESS_VM_WRITE = 0x0020"

definition PROCESS_ALL_ACCESS :: DWORD where
  "PROCESS_ALL_ACCESS = 0x1FFFFF"

definition SafeMemory_AllAccess :: DWORD where
  "SafeMemory_AllAccess = PROCESS_ALL_ACCESS"

definition SafeMemory_ReadAccess :: DWORD where
  "SafeMemory_ReadAccess = PROCESS_VM_READ"

definition SafeMemory_WriteAccess :: DWORD where
  "SafeMemory_WriteAccess = PROCESS_VM_WRITE"

text \<open>
  A state of the simulated system: whether snapshots can be taken, the running
  processes and their modules in enumeration order, the top-level windows, the handle
  table of opened processes (handle, process, granted access), the log of
  \<open>CloseHandle\<close> calls, and the memory of every process.
\<close>

record sim =
  toolhelp_ok :: bool
  running :: "PROCESSENTRY32 list"
  loaded :: "DWORD \<Rightarrow> MODULEENTRY32 list"
  window_titled :: "string \<Rightarrow> HWND"
  window_owner :: "HWND \<Rightarrow> DWORD \<times> DWORD"
  next_handle :: HANDLE
  process_handles :: "(HANDLE \<times> DWORD \<times> DWORD) list"
  closed :: "HANDLE list"
  memory :: "DWORD \<Rightarrow> uintptr_t \<Rightarrow> byte option"

definition sim_fresh_handle :: "sim \<Rightarrow> sim" where
  "sim_fresh_handle s = s\<lparr>next_handle := next_handle s + 4\<rparr>"

definition sim_snapshot_process :: "sim \<Rightarrow> (HANDLE \<times> PROCESSENTRY32 list) \<times> sim" where
  "sim_snapshot_process s =
     (if toolhelp_ok s
      then ((next_handle s, running s), sim_fresh_handle s)
      else ((INVALID_HANDLE_VALUE, []), s))"

definition sim_snapshot_module :: "sim \<Rightarrow> DWORD \<Rightarrow> (HANDLE \<times> MODULEENTRY32 list) \<times> sim" where
  "sim_snapshot_module s pid =
     (if toolhelp_ok s \<and> pid \<in> set (map th32ProcessID (running s))
      then ((next_handle s, loaded s pid), sim_fresh_handle s)
      else ((INVALID_HANDLE_VALUE, []), s))"

definition sim_OpenProcess :: "sim \<Rightarrow> DWORD \<Rightarrow> DWORD \<Rightarrow> HANDLE \<times> sim" where
  "sim_OpenProcess s access pid =
     (if pid \<in> set (map th32ProcessID (running s))
      then (next_handle s,
            sim_fresh_handle
              (s\<lparr>process_handles := (next_handle s, pid, access) # process_handles s\<rparr>))
      else (nullptr, s))"

definition sim_CloseHandle :: "sim \<Rightarrow> HANDLE \<Rightarrow> sim" where
  "sim_CloseHandle s h =
     s\<lparr>closed := closed s @ [h],
       process_handles := filter (\<lambda>e. fst e \<noteq> h) (process_handles s)\<rparr>"

definition sim_cells :: "uintptr_t \<Rightarrow> nat \<Rightarrow> uintptr_t list" where
  "sim_cells a n = map (\<lambda>i. a + of_nat i) [0..<n]"

fun sim_store :: "(uintptr_t \<Rightarrow> byte option) \<Rightarrow> uintptr_t \<Rightarrow> byte list \<Rightarrow> uintptr_t \<Rightarrow> byte option" where
  "sim_store m a [] = m"
| "sim_store m a (b # bs) = sim_store (m(a \<mapsto> b)) (a + 1) bs"

definition sim_ReadProcessMemory :: "sim \<Rightarrow> HANDLE \<Rightarrow> uintptr_t \<Rightarrow> nat \<Rightarrow> byte list option" where
  "sim_ReadProcessMemory s h a n =
     (case map_of (process_handles s) h of
        None \<Rightarrow> None
      | Some (pid, access) \<Rightarrow>
          if access AND PROCESS_VM_READ = 0 then None
          else those (map (memory s pid) (sim_cells a n)))"

definition sim_WriteProcessMemory :: "sim \<Rightarrow> HANDLE \<Rightarrow> uintptr_t \<Rightarrow> byte list \<Rightarrow> bool \<times> sim" where
  "sim_WriteProcessMemory s h a bs =
     (case map_of (process_handles s) h of
        None \<Rightarrow> (False, s)
      | Some (pid, access) \<Rightarrow>
          if access AND PROCESS_VM_WRITE = 0 \<or> access AND PROCESS_VM_OPERATION = 0
          then (False, s)
          else if those (map (memory s pid) (sim_cells a (length bs))) = None
          then (False, s)
          else (True, s\<lparr>memory := (memory s)(pid := sim_store (memory s pid) a bs)\<rparr>))"

definition sim_api :: "sim winapi" where
  "sim_api =
     \<lparr>CreateToolhelp32Snapshot_process = sim_snapshot_process,
      CreateToolhelp32Snapshot_module = sim_snapshot_module,
      FindWindowA = window_titled,
      GetWindowThreadProcessId = window_owner,
      OpenProcess = sim_OpenProcess,
      CloseHandle = sim_CloseHandle,
      ReadProcessMemory = sim_ReadProcessMemory,
      WriteProcessMemory = sim_WriteProcessMemory\<rparr>"

text \<open>
  A machine with the idle process, \<open>target.exe\<close> (process 4242, with one window and
  four mapped bytes at \<open>0x1000\<close>) and \<open>other.exe\<close>.
\<close>

definition sim_boot :: sim where
  "sim_boot =
     \<lparr>toolhelp_ok = True,
      running =
        [\<lparr>th32ProcessID = 0, szExeFile = ''[System Process]''\<rparr>,
         \<lparr>th32ProcessID = 4242, szExeFile = ''target.exe''\<rparr>,
         \<lparr>th32ProcessID = 5000, szExeFile = ''other.exe''\<rparr>],
      loaded =
        (\<lambda>pid. if pid = 4242
           then [\<lparr>modBaseAddr = 0x400000, szModule = ''target.exe''\<rparr>,
                 \<lparr>modBaseAddr = 0x7FF800000000, szModule = ''ntdll.dll''\<rparr>,
                 \<lparr>modBaseAddr = 0x7FF810000000, szModule = ''KERNEL32.DLL''\<rparr>]
           else []),
      window_titled = (\<lambda>title. if title = ''Target Window'' then 0x50A else nullptr),
      window_owner = (\<lambda>w. if w = 0x50A then (77, 4242) else (0, 0)),
      next_handle = 0x100,
      process_handles = [],
      closed = [],
      memory =
        (\<lambda>pid a. if pid = 4242 \<and> a \<in> set (sim_cells 0x1000 4) then Some 0 else None)\<rparr>"

text \<open>The layout of \<open>std::int32_t\<close> on a little-endian machine.\<close>

definition int32_bytes :: "32 word \<Rightarrow> byte list" where
  "int32_bytes v = map (\<lambda>i. ucast (drop_bit (8 * i) v)) [0..<4]"

definition int32_value :: "byte list \<Rightarrow> 32 word" where
  "int32_value bs = foldr (\<lambda>b acc. ucast b OR push_bit 8 acc) bs 0"

definition int32_t :: "32 word object_layout" where
  "int32_t = \<lparr>sizeof = 4, object_bytes = int32_bytes, object_value = int32_value\<rparr>"

text \<open>
  Attaching to \<open>target.exe\<close> by name with all access, and the object this yields.
\<close>

definition sim_attached :: "(exn + SafeMemory) \<times> sim" where
  "sim_attached = SafeMemory_process_name sim_api sim_boot ''target.exe'' SafeMemory_AllAccess"

definition sim_this :: SafeMemory where
  "sim_this = \<lparr>m_processHandle = Some 0x104, m_processID = Some 4242\<rparr>"

section \<open>Facts about the model\<close>

lemma unique_handle_dtor_nullptr: "unique_handle_dtor api s nullptr = s"
  by (simp add: unique_handle_dtor_def)

lemma SafeMemory_dtor_members_init: "SafeMemory_dtor api s SafeMemory_members_init = s"
  by (simp add: SafeMemory_dtor_def SafeMemory_members_init_def)

text \<open>
  A \<open>unique_handle\<close> closes every handle it holds but the null one, so a failed
  snapshot ends with \<open>CloseHandle(INVALID_HANDLE_VALUE)\<close>; and destroying an object
  closes the handle it holds.
\<close>

lemma unique_handle_dtor_closes:
  "unique_handle_dtor api s h = (if h = nullptr then s else CloseHandle api s h)"
  by (simp add: unique_handle_dtor_def HandleDisposer_def)

lemma SafeMemory_dtor_closes:
  "m_processHandle this = Some h \<Longrightarrow> h \<noteq> nullptr \<Longrightarrow>
   SafeMemory_dtor api s this = CloseHandle api s h"
  by (simp add: SafeMemory_dtor_def unique_handle_dtor_closes)

text \<open>Both loops return the first match among the entries they are given.\<close>

lemma Process32Next_loop_find:
  "Process32Next_loop process_name entries =
     map_option th32ProcessID (find (\<lambda>e. process_name = szExeFile e) entries)"
  by (induction entries) simp_all

lemma Module32Next_loop_find:
  "Module32Next_loop module_name entries =
     map_option modBaseAddr (find (\<lambda>e. module_name = szModule e) entries)"
  by (induction entries) simp_all

text \<open>
  What the two lookups return: the first match among the entries after the first one.
\<close>

lemma AcquireProcessID_result:
  "fst (AcquireProcessID api s process_name) =
     (case fst (CreateToolhelp32Snapshot_process api s) of
        (snapshot_handle, entries) \<Rightarrow>
          if snapshot_handle = INVALID_HANDLE_VALUE then None
          else map_option th32ProcessID (find (\<lambda>e. process_name = szExeFile e) (tl entries)))"
  by (simp add: AcquireProcessID_def Process32Next_loop_find split: prod.splits list.splits)

lemma GetModuleBaseAddress_result:
  "fst (GetModuleBaseAddress api s this module_name) =
     (case m_processID this of
        None \<Rightarrow> None
      | Some pid \<Rightarrow>
          (case fst (CreateToolhelp32Snapshot_module api s pid) of
             (snapshot_handle, entries) \<Rightarrow>
               if snapshot_handle = INVALID_HANDLE_VALUE then None
               else map_option modBaseAddr (find (\<lambda>e. module_name = szModule e) (tl entries))))"
  by (simp add: GetModuleBaseAddress_def Module32Next_loop_find
      split: prod.splits list.splits option.splits)

text \<open>
  \<open>GetModuleBaseAddress\<close> answers \<open>None\<close> without an identifier, on a failed snapshot
  and when no module of the snapshot has the name.
\<close>

lemma GetModuleBaseAddress_absent:
  "(m_processID this = None \<longrightarrow> fst (GetModuleBaseAddress api s this module_name) = None) \<and>
   (m_processID this = Some pid \<and>
      fst (fst (CreateToolhelp32Snapshot_module api s pid)) = INVALID_HANDLE_VALUE \<longrightarrow>
      fst (GetModuleBaseAddress api s this module_name) = None) \<and>
   (m_processID this = Some pid \<and>
      (\<forall>e \<in> set (snd (fst (CreateToolhelp32Snapshot_module api s pid))).
         szModule e \<noteq> module_name) \<longrightarrow>
      fst (GetModuleBaseAddress api s this module_name) = None)"
proof (intro conjI impI)
  assume "m_processID this = None"
  then show "fst (GetModuleBaseAddress api s this module_name) = None"
    by (simp add: GetModuleBaseAddress_def)
next
  assume "m_processID this = Some pid \<and>
    fst (fst (CreateToolhelp32Snapshot_module api s pid)) = INVALID_HANDLE_VALUE"
  then show "fst (GetModuleBaseAddress api s this module_name) = None"
    by (auto simp: GetModuleBaseAddress_def split: prod.splits list.splits)
next
  assume none: "m_processID this = Some pid \<and>
    (\<forall>e \<in> set (snd (fst (CreateToolhelp32Snapshot_module api s pid))).
       szModule e \<noteq> module_name)"
  obtain h entries where snap: "fst (CreateToolhelp32Snapshot_module api s pid) = (h, entries)"
    by (cases "fst (CreateToolhelp32Snapshot_module api s pid)")
  have "set (tl entries) \<subseteq> set entries"
    by (cases entries) auto
  with none snap have "find (\<lambda>e. module_name = szModule e) (tl entries) = None"
    by (auto simp: find_None_iff)
  with none snap show "fst (GetModuleBaseAddress api s this module_name) = None"
    by (simp add: GetModuleBaseAddress_result)
qed

text \<open>\<open>AcquireProcessHandle\<close> as the constructors call it, on the fresh object.\<close>

lemma AcquireProcessHandle_cases:
  "AcquireProcessHandle api s SafeMemory_members_init process_id processFlags =
     (case process_id of
        None \<Rightarrow> (False, SafeMemory_members_init, s)
      | Some pid \<Rightarrow>
          (case OpenProcess api s processFlags pid of
             (h, s1) \<Rightarrow>
               if h = nullptr then (False, SafeMemory_members_init, s1)
               else (True, SafeMemory_members_init\<lparr>m_processHandle := Some h\<rparr>, s1)))"
  by (simp add: AcquireProcessHandle_def CreateProcessHandle_def SafeMemory_dtor_members_init
      unique_handle_dtor_nullptr split: option.splits prod.splits)
    (simp add: SafeMemory_members_init_def)

text \<open>
  What each constructor throws when it has no identifier, and when \<open>OpenProcess\<close>
  fails: in every case an exception, never an object.
\<close>

lemma construction_fails_without_identifier:
  "(fst (AcquireProcessID api s process_name) = None \<longrightarrow>
      fst (SafeMemory_process_name api s process_name processFlags) = Inl bad_optional_access) \<and>
   (AcquireProcessIDByWindowName api s window_name = None \<longrightarrow>
      fst (SafeMemory_window_name api s window_name processFlags min_window) =
        Inl bad_optional_access) \<and>
   fst (SafeMemory_process_id api s None processFlags) = Inl failed_to_open"
  by (auto simp: SafeMemory_process_name_def SafeMemory_window_name_def SafeMemory_process_id_def
      AcquireProcessHandle_cases SafeMemory_finish_def split: prod.splits)

lemma construction_fails_without_handle:
  assumes "fst (OpenProcess api s processFlags pid) = nullptr"
  shows "fst (SafeMemory_process_id api s (Some pid) processFlags) = Inl failed_to_open"
    and "AcquireProcessIDByWindowName api s window_name = Some pid \<Longrightarrow>
      fst (SafeMemory_window_name api s window_name processFlags min_window) = Inl failed_to_open"
  using assms
  by (auto simp: SafeMemory_window_name_def SafeMemory_process_id_def
      AcquireProcessHandle_cases SafeMemory_finish_def split: prod.splits)

lemma construction_by_name_fails_without_handle:
  assumes "AcquireProcessID api s process_name = (Some pid, s1)"
    and "fst (OpenProcess api s1 processFlags pid) = nullptr"
  shows "fst (SafeMemory_process_name api s process_name processFlags) = Inl failed_to_open"
  using assms
  by (auto simp: SafeMemory_process_name_def
      AcquireProcessHandle_cases SafeMemory_finish_def split: prod.splits)

text \<open>
  A constructor that returns an object has obtained its handle from \<open>OpenProcess\<close> in
  the state it returns from.
\<close>

lemma SafeMemory_finish_Inr:
  assumes "SafeMemory_finish api process_id
      (AcquireProcessHandle api s SafeMemory_members_init process_id processFlags) = (Inr this, s1)"
  shows "\<exists>pid h. process_id = Some pid \<and> h \<noteq> nullptr \<and>
      OpenProcess api s processFlags pid = (h, s1) \<and>
      this = \<lparr>m_processHandle = Some h, m_processID = Some pid\<rparr>"
  using assms unfolding AcquireProcessHandle_cases SafeMemory_finish_def
  by (auto simp: SafeMemory_members_init_def split: option.splits prod.splits if_splits)

text \<open>The public calls hand the object back as they received it.\<close>

lemma invoke_object: "fst (snd (invoke api c (this, s))) = this"
  by (cases c) (simp_all split: prod.splits)

lemma invoke_all_object: "fst (invoke_all api cs (this, s)) = this"
proof (induction cs arbitrary: s)
  case Nil
  show ?case by simp
next
  case (Cons c cs)
  obtain r s1 where step: "invoke api c (this, s) = (r, this, s1)"
    using invoke_object [of api c this s] by (cases "invoke api c (this, s)") auto
  then show ?case
    using Cons.IH [of s1] by simp
qed

subsection \<open>The simulated system\<close>

lemma sim_attached_object: "fst sim_attached = Inr sim_this"
  by code_simp

lemma sim_cells_Suc: "sim_cells a (Suc n) = a # sim_cells (a + 1) n"
proof -
  have "[0..<Suc n] = 0 # map Suc [0..<n]"
    by (simp add: upt_conv_Cons map_Suc_upt del: upt_Suc)
  then show ?thesis
    by (simp add: sim_cells_def comp_def add.assoc del: upt_Suc)
qed

lemma sim_cells_distinct:
  assumes "n \<le> 2 ^ 64"
  shows "distinct (sim_cells a n)"
proof -
  have "inj_on (\<lambda>i. a + (of_nat i :: 64 word)) {0..<n}"
  proof (rule inj_onI)
    fix i j
    assume "i \<in> {0..<n}" "j \<in> {0..<n}" "a + (of_nat i :: 64 word) = a + of_nat j"
    with assms have "i < 2 ^ 64" "j < 2 ^ 64" "(of_nat i :: 64 word) = of_nat j"
      by auto
    then show "i = j"
      by (simp add: word_of_nat_eq_iff take_bit_nat_eq_self)
  qed
  then show ?thesis
    by (simp add: sim_cells_def distinct_map)
qed

lemma sim_store_elsewhere:
  "x \<notin> set (sim_cells a (length bs)) \<Longrightarrow> sim_store m a bs x = m x"
  by (induction bs arbitrary: m a) (auto simp: sim_cells_Suc simp del: fun_upd_apply
      simp add: fun_upd_other)

lemma sim_store_read_back:
  "distinct (sim_cells a (length bs)) \<Longrightarrow>
   those (map (sim_store m a bs) (sim_cells a (length bs))) = Some bs"
proof (induction bs arbitrary: m a)
  case Nil
  show ?case by (simp add: sim_cells_def)
next
  case (Cons b bs)
  then have fresh: "a \<notin> set (sim_cells (a + 1) (length bs))"
    and rest: "distinct (sim_cells (a + 1) (length bs))"
    by (simp_all add: sim_cells_Suc)
  from fresh have "sim_store (m(a \<mapsto> b)) (a + 1) bs a = Some b"
    by (simp add: sim_store_elsewhere)
  with Cons.IH [OF rest] show ?case
    by (simp add: sim_cells_Suc)
qed

text \<open>
  In the simulated system a successful write through a handle that may also read is
  read back unchanged.
\<close>

lemma sim_read_after_write:
  assumes written: "sim_WriteProcessMemory s h a bs = (True, s1)"
    and readable: "map_of (process_handles s) h = Some (pid, access)"
      "access AND PROCESS_VM_READ \<noteq> 0"
    and size: "length bs \<le> 2 ^ 64"
  shows "sim_ReadProcessMemory s1 h a (length bs) = Some bs"
proof -
  from written readable
  have s1: "s1 = s\<lparr>memory := (memory s)(pid := sim_store (memory s pid) a bs)\<rparr>"
    by (auto simp: sim_WriteProcessMemory_def split: if_splits)
  show ?thesis
    using readable sim_store_read_back [OF sim_cells_distinct [OF size]]
    by (simp add: s1 sim_ReadProcessMemory_def)
qed

section \<open>The properties of the specification\<close>

text \<open>
  C1. Resolution by name is claimed to return the identifier of the first process of
  the snapshot whose executable name equals the given one. The loop of
  \<open>AcquireProcessID\<close> starts with \<open>Process32Next\<close>, so the entry that
  \<open>Process32First\<close> delivered is never compared: on a snapshot that begins with the
  idle process, the first entry named \<open>[System Process]\<close> has identifier 0, and
  \<open>AcquireProcessID\<close> returns nothing for that name.
\<close>

theorem AcquireProcessID_skips_first_entry:
  "fst (CreateToolhelp32Snapshot_process sim_api sim_boot) = (0x100, running sim_boot) \<and>
   find (\<lambda>e. szExeFile e = ''[System Process]'') (running sim_boot) =
     Some \<lparr>th32ProcessID = 0, szExeFile = ''[System Process]''\<rparr> \<and>
   fst (AcquireProcessID sim_api sim_boot ''[System Process]'') = None"
  by (simp add: AcquireProcessID_def sim_api_def sim_boot_def sim_snapshot_process_def
      INVALID_HANDLE_VALUE_def)

text \<open>
  C2. \<open>GetModuleBaseAddress\<close> is claimed to return the base address of the first module
  of the snapshot with the given name. Its loop starts with \<open>Module32Next\<close> as well: for
  the object attached to \<open>target.exe\<close>, whose first module is \<open>target.exe\<close> at
  \<open>0x400000\<close>, the lookup of \<open>target.exe\<close> returns nothing, while a later module is
  found.
\<close>

theorem GetModuleBaseAddress_skips_first_module:
  "fst sim_attached = Inr sim_this \<and>
   find (\<lambda>e. szModule e = ''target.exe'') (loaded (snd sim_attached) 4242) =
     Some \<lparr>modBaseAddr = 0x400000, szModule = ''target.exe''\<rparr> \<and>
   fst (GetModuleBaseAddress sim_api (snd sim_attached) sim_this ''target.exe'') = None \<and>
   fst (GetModuleBaseAddress sim_api (snd sim_attached) sim_this ''ntdll.dll'') =
     Some 0x7FF800000000"
  by code_simp

text \<open>
  C3. Construction is claimed to fail with the constructors' own exception whenever
  resolution yields no identifier. The constructors by process name and by window title
  call \<open>value()\<close> on the empty optional first, so what they throw is
  \<open>std::bad_optional_access\<close>; only the constructor that takes the optional itself
  throws the exception with the message. Here no process is named \<open>nope.exe\<close> and no
  window is titled \<open>No Such Window\<close>.
\<close>

theorem constructors_throw_bad_optional_access:
  "fst (AcquireProcessID sim_api sim_boot ''nope.exe'') = None \<and>
   fst (SafeMemory_process_name sim_api sim_boot ''nope.exe'' SafeMemory_ReadAccess) =
     Inl bad_optional_access \<and>
   AcquireProcessIDByWindowName sim_api sim_boot ''No Such Window'' = None \<and>
   fst (SafeMemory_window_name sim_api sim_boot ''No Such Window'' SafeMemory_ReadAccess False) =
     Inl bad_optional_access \<and>
   fst (SafeMemory_process_id sim_api sim_boot None SafeMemory_ReadAccess) = Inl failed_to_open \<and>
   bad_optional_access \<noteq> failed_to_open"
  by code_simp

text \<open>
  C4. \<open>SafeReadMemory\<close> returns nothing exactly when the object holds no handle or
  \<open>ReadProcessMemory\<close> answers \<open>FALSE\<close>, and otherwise the value of the bytes read for
  \<open>sizeof(T)\<close>; \<open>SafeWriteMemory\<close> returns \<open>false\<close> exactly when the object holds no
  handle or \<open>WriteProcessMemory\<close> answers \<open>FALSE\<close>, and \<open>true\<close> otherwise. Both are
  total: neither has an exception among its results.
\<close>

theorem SafeReadMemory_SafeWriteMemory_results:
  "(SafeReadMemory api s this T a = None \<longleftrightarrow>
      m_processHandle this = None \<or>
      (\<exists>h. m_processHandle this = Some h \<and> ReadProcessMemory api s h a (sizeof T) = None)) \<and>
   (\<forall>h bytes. m_processHandle this = Some h \<and>
        ReadProcessMemory api s h a (sizeof T) = Some bytes \<longrightarrow>
      SafeReadMemory api s this T a = Some (object_value T bytes)) \<and>
   (fst (SafeWriteMemory api s this T a v) = False \<longleftrightarrow>
      m_processHandle this = None \<or>
      (\<exists>h. m_processHandle this = Some h \<and>
         fst (WriteProcessMemory api s h a (object_bytes T v)) = False)) \<and>
   (\<forall>h. m_processHandle this = Some h \<and>
        fst (WriteProcessMemory api s h a (object_bytes T v)) = True \<longrightarrow>
      SafeWriteMemory api s this T a v =
        (True, snd (WriteProcessMemory api s h a (object_bytes T v))))"
  by (auto simp: SafeReadMemory_def SafeWriteMemory_def split: option.splits prod.splits)

theorem SafeReadMemory_SafeWriteMemory_results_witness:
  "SafeReadMemory sim_api (snd sim_attached) sim_this int32_t 0x1000 = Some 0 \<and>
   SafeReadMemory sim_api (snd sim_attached) sim_this int32_t 0x2000 = None \<and>
   SafeReadMemory sim_api (snd sim_attached) SafeMemory_members_init int32_t 0x1000 = None \<and>
   fst (SafeWriteMemory sim_api (snd sim_attached) sim_this int32_t 0x1000 42) = True \<and>
   fst (SafeWriteMemory sim_api (snd sim_attached) sim_this int32_t 0x2000 42) = False"
proof -
  have handle: "m_processHandle sim_this = Some 0x104"
    by (simp add: sim_this_def)
  have no_handle: "m_processHandle SafeMemory_members_init = None"
    by (simp add: SafeMemory_members_init_def)
  have read_ok: "ReadProcessMemory sim_api (snd sim_attached) 0x104 0x1000 (sizeof int32_t) =
      Some [0, 0, 0, 0]"
    by code_simp
  have value_0: "object_value int32_t [0, 0, 0, 0] = 0"
    by code_simp
  have read_fails: "ReadProcessMemory sim_api (snd sim_attached) 0x104 0x2000 (sizeof int32_t) =
      None"
    by code_simp
  have write_ok: "fst (WriteProcessMemory sim_api (snd sim_attached) 0x104 0x1000
      (object_bytes int32_t 42)) = True"
    by code_simp
  have write_fails: "fst (WriteProcessMemory sim_api (snd sim_attached) 0x104 0x2000
      (object_bytes int32_t 42)) = False"
    by code_simp
  show ?thesis
    using SafeReadMemory_SafeWriteMemory_results
        [of sim_api "snd sim_attached" sim_this int32_t "0x1000" 42]
      SafeReadMemory_SafeWriteMemory_results
        [of sim_api "snd sim_attached" sim_this int32_t "0x2000" 42]
      SafeReadMemory_SafeWriteMemory_results
        [of sim_api "snd sim_attached" SafeMemory_members_init int32_t "0x1000" 42]
      handle no_handle read_ok value_0 read_fails write_ok write_fails
    by auto
qed

text \<open>
  C5. Both resolutions return nothing on every failure: \<open>AcquireProcessID\<close> when the
  snapshot cannot be created and when no entry of the snapshot has the name,
  \<open>AcquireProcessIDByWindowName\<close> when no window is found and when the owner of the
  window cannot be determined. Both are total: neither has an exception among its
  results.
\<close>

theorem resolution_failures_absent:
  "(fst (fst (CreateToolhelp32Snapshot_process api s)) = INVALID_HANDLE_VALUE \<longrightarrow>
      fst (AcquireProcessID api s process_name) = None) \<and>
   ((\<forall>e \<in> set (snd (fst (CreateToolhelp32Snapshot_process api s))).
        szExeFile e \<noteq> process_name) \<longrightarrow>
      fst (AcquireProcessID api s process_name) = None) \<and>
   (FindWindowA api s (c_str window_name) = nullptr \<longrightarrow>
      AcquireProcessIDByWindowName api s window_name = None) \<and>
   (fst (GetWindowThreadProcessId api s (FindWindowA api s (c_str window_name))) = 0 \<longrightarrow>
      AcquireProcessIDByWindowName api s window_name = None)"
proof (intro conjI impI)
  assume "fst (fst (CreateToolhelp32Snapshot_process api s)) = INVALID_HANDLE_VALUE"
  then show "fst (AcquireProcessID api s process_name) = None"
    by (auto simp: AcquireProcessID_def split: prod.splits list.splits)
next
  assume none: "\<forall>e \<in> set (snd (fst (CreateToolhelp32Snapshot_process api s))).
    szExeFile e \<noteq> process_name"
  obtain h entries where snap: "fst (CreateToolhelp32Snapshot_process api s) = (h, entries)"
    by (cases "fst (CreateToolhelp32Snapshot_process api s)")
  have "set (tl entries) \<subseteq> set entries"
    by (cases entries) auto
  with none snap have "find (\<lambda>e. process_name = szExeFile e) (tl entries) = None"
    by (auto simp: find_None_iff)
  with snap show "fst (AcquireProcessID api s process_name) = None"
    by (simp add: AcquireProcessID_result)
next
  assume "FindWindowA api s (c_str window_name) = nullptr"
  then show "AcquireProcessIDByWindowName api s window_name = None"
    by (simp add: AcquireProcessIDByWindowName_def)
next
  assume "fst (GetWindowThreadProcessId api s (FindWindowA api s (c_str window_name))) = 0"
  then show "AcquireProcessIDByWindowName api s window_name = None"
    by (cases "GetWindowThreadProcessId api s (FindWindowA api s (c_str window_name))")
      (simp add: AcquireProcessIDByWindowName_def Let_def)
qed

theorem resolution_failures_absent_witness:
  "fst (AcquireProcessID sim_api (sim_boot\<lparr>toolhelp_ok := False\<rparr>) ''target.exe'') = None \<and>
   fst (AcquireProcessID sim_api sim_boot ''nope.exe'') = None \<and>
   AcquireProcessIDByWindowName sim_api sim_boot ''No Such Window'' = None \<and>
   AcquireProcessIDByWindowName sim_api (sim_boot\<lparr>window_titled := \<lambda>title. 0x50B\<rparr>)
     ''Ghost'' = None"
proof -
  have snapshot_fails:
    "fst (fst (CreateToolhelp32Snapshot_process sim_api (sim_boot\<lparr>toolhelp_ok := False\<rparr>))) =
      INVALID_HANDLE_VALUE"
    by code_simp
  have no_match:
    "\<forall>e \<in> set (snd (fst (CreateToolhelp32Snapshot_process sim_api sim_boot))).
       szExeFile e \<noteq> ''nope.exe''"
    by code_simp
  have no_window: "FindWindowA sim_api sim_boot (c_str ''No Such Window'') = nullptr"
    by code_simp
  have no_owner:
    "fst (GetWindowThreadProcessId sim_api (sim_boot\<lparr>window_titled := \<lambda>title. 0x50B\<rparr>)
       (FindWindowA sim_api (sim_boot\<lparr>window_titled := \<lambda>title. 0x50B\<rparr>) (c_str ''Ghost''))) = 0"
    by code_simp
  show ?thesis
    using resolution_failures_absent
        [of sim_api "sim_boot\<lparr>toolhelp_ok := False\<rparr>" "''target.exe''" "''Ghost''"]
      resolution_failures_absent [of sim_api sim_boot "''nope.exe''" "''No Such Window''"]
      resolution_failures_absent
        [of sim_api "sim_boot\<lparr>window_titled := \<lambda>title. 0x50B\<rparr>" "''nope.exe''" "''Ghost''"]
      snapshot_fails no_match no_window no_owner
    by blast
qed

text \<open>
  C6. An object that any of the three constructors returned holds an identifier and a
  handle, the handle being the non-null one that \<open>OpenProcess\<close> gave this construction
  in the state the constructor returns from; and every public call, and every sequence
  of public calls, leaves the object as it was.
\<close>

theorem constructed_object_invariant:
  assumes "SafeMemory_process_name api s process_name processFlags = (Inr this, s1) \<or>
      SafeMemory_window_name api s window_name processFlags min_window = (Inr this, s1) \<or>
      SafeMemory_process_id api s process_id processFlags = (Inr this, s1)"
  shows "(\<exists>pid h s0. m_processID this = Some pid \<and> m_processHandle this = Some h \<and>
        h \<noteq> nullptr \<and> OpenProcess api s0 processFlags pid = (h, s1)) \<and>
      fst (snd (invoke api c (this, s2))) = this \<and>
      fst (invoke_all api cs (this, s2)) = this"
proof -
  have "\<exists>pid h s0. h \<noteq> nullptr \<and> OpenProcess api s0 processFlags pid = (h, s1) \<and>
      this = \<lparr>m_processHandle = Some h, m_processID = Some pid\<rparr>"
    using assms
  proof (elim disjE)
    assume "SafeMemory_process_name api s process_name processFlags = (Inr this, s1)"
    then show ?thesis
      by (auto simp: SafeMemory_process_name_def split: prod.splits option.splits
          dest!: SafeMemory_finish_Inr)
  next
    assume "SafeMemory_window_name api s window_name processFlags min_window = (Inr this, s1)"
    then show ?thesis
      by (auto simp: SafeMemory_window_name_def Let_def split: prod.splits option.splits
          dest!: SafeMemory_finish_Inr)
  next
    assume "SafeMemory_process_id api s process_id processFlags = (Inr this, s1)"
    then show ?thesis
      by (auto simp: SafeMemory_process_id_def dest!: SafeMemory_finish_Inr)
  qed
  then show ?thesis
    by (auto simp: invoke_object invoke_all_object)
qed

theorem constructed_object_invariant_witness:
  "(\<exists>pid h s0. m_processID sim_this = Some pid \<and> m_processHandle sim_this = Some h \<and>
      h \<noteq> nullptr \<and> OpenProcess sim_api s0 SafeMemory_AllAccess pid = (h, snd sim_attached)) \<and>
   fst (snd (invoke sim_api (Call_SafeWriteMemory int32_t 0x1000 42)
     (sim_this, snd sim_attached))) = sim_this \<and>
   fst (invoke_all sim_api
     [Call_SafeWriteMemory int32_t 0x1000 42, Call_SafeReadMemory int32_t 0x1000,
      Call_GetModuleBaseAddress ''ntdll.dll'']
     (sim_this, snd sim_attached)) = sim_this"
proof -
  have "SafeMemory_process_name sim_api sim_boot ''target.exe'' SafeMemory_AllAccess =
      (Inr sim_this, snd sim_attached)"
    using sim_attached_object by (simp add: sim_attached_def prod_eq_iff)
  then show ?thesis
    by (intro constructed_object_invariant [OF disjI1])
qed

text \<open>
  C7. Round trip. Let the object hold a handle, let \<open>T\<close> be laid out in \<open>sizeof(T)\<close>
  bytes from which the value is recovered, and let the system return, through this
  handle and at this address, the bytes a successful write has just stored there. Then a
  successful \<open>SafeWriteMemory\<close> of \<open>v\<close> followed by \<open>SafeReadMemory\<close> at the same address
  returns \<open>v\<close>.
\<close>

theorem write_then_read_roundtrip:
  assumes handle: "m_processHandle this = Some h"
    and size: "length (object_bytes T v) = sizeof T"
    and no_padding: "object_value T (object_bytes T v) = v"
    and os: "\<And>s1. WriteProcessMemory api s h a (object_bytes T v) = (True, s1) \<Longrightarrow>
        ReadProcessMemory api s1 h a (length (object_bytes T v)) = Some (object_bytes T v)"
    and written: "SafeWriteMemory api s this T a v = (True, s')"
  shows "SafeReadMemory api s' this T a = Some v"
proof -
  from written handle have "WriteProcessMemory api s h a (object_bytes T v) = (True, s')"
    by (auto simp: SafeWriteMemory_def split: prod.splits if_splits)
  then have "ReadProcessMemory api s' h a (sizeof T) = Some (object_bytes T v)"
    using os size by simp
  with handle no_padding show ?thesis
    by (simp add: SafeReadMemory_def)
qed

theorem write_then_read_roundtrip_witness:
  "fst (SafeWriteMemory sim_api (snd sim_attached) sim_this int32_t 0x1000 42) = True \<and>
   SafeReadMemory sim_api
     (snd (SafeWriteMemory sim_api (snd sim_attached) sim_this int32_t 0x1000 42))
     sim_this int32_t 0x1000 = Some 42"
proof -
  have handle: "m_processHandle sim_this = Some 0x104"
    by (simp add: sim_this_def)
  have size: "length (object_bytes int32_t 42) = sizeof int32_t"
    by code_simp
  have no_padding: "object_value int32_t (object_bytes int32_t 42) = 42"
    by code_simp
  have os: "ReadProcessMemory sim_api s1 0x104 0x1000 (length (object_bytes int32_t 42)) =
      Some (object_bytes int32_t 42)"
    if "WriteProcessMemory sim_api (snd sim_attached) 0x104 0x1000 (object_bytes int32_t 42) =
      (True, s1)" for s1
  proof -
    from that have "s1 = snd (WriteProcessMemory sim_api (snd sim_attached) 0x104 0x1000
        (object_bytes int32_t 42))"
      by simp
    moreover have "ReadProcessMemory sim_api
        (snd (WriteProcessMemory sim_api (snd sim_attached) 0x104 0x1000
          (object_bytes int32_t 42)))
        0x104 0x1000 (length (object_bytes int32_t 42)) = Some (object_bytes int32_t 42)"
      by code_simp
    ultimately show ?thesis
      by simp
  qed
  have ok: "fst (SafeWriteMemory sim_api (snd sim_attached) sim_this int32_t 0x1000 42) = True"
    by code_simp
  then have written: "SafeWriteMemory sim_api (snd sim_attached) sim_this int32_t 0x1000 42 =
      (True, snd (SafeWriteMemory sim_api (snd sim_attached) sim_this int32_t 0x1000 42))"
    by (simp add: prod_eq_iff)
  show ?thesis
    using ok write_then_read_roundtrip [OF handle size no_padding os written] by simp
qed

text \<open>
  C8. The constructor by window title gives the same outcome, the same object and the
  same state whether \<open>min_window\<close> is \<open>true\<close> or \<open>false\<close>.
\<close>

theorem min_window_ignored:
  "SafeMemory_window_name api s window_name processFlags True =
   SafeMemory_window_name api s window_name processFlags False"
  by (simp add: SafeMemory_window_name_def)

text \<open>
  C9. For every handle value the guard of \<open>HandleDisposer::operator()\<close> holds, so the
  call releases the handle with \<open>CloseHandle\<close> whatever it is, the null handle and
  \<open>INVALID_HANDLE_VALUE\<close> included.
\<close>

theorem HandleDisposer_always_closes:
  "(handle \<noteq> INVALID_HANDLE_VALUE \<or> handle \<noteq> nullptr) \<and>
   HandleDisposer api s handle = CloseHandle api s handle"
proof -
  have "INVALID_HANDLE_VALUE \<noteq> nullptr"
    by (simp add: INVALID_HANDLE_VALUE_def nullptr_def)
  then have "handle \<noteq> INVALID_HANDLE_VALUE \<or> handle \<noteq> nullptr"
    by auto
  then show ?thesis
    by (simp add: HandleDisposer_def)
qed

theorem HandleDisposer_always_closes_witness:
  "closed (HandleDisposer sim_api sim_boot nullptr) = [0] \<and>
   closed (HandleDisposer sim_api sim_boot INVALID_HANDLE_VALUE) = [- 1]"
  using HandleDisposer_always_closes [of nullptr sim_api sim_boot]
    HandleDisposer_always_closes [of INVALID_HANDLE_VALUE sim_api sim_boot]
  by (simp add: sim_api_def sim_CloseHandle_def sim_boot_def nullptr_def
      INVALID_HANDLE_VALUE_def)

text \<open>
  C10. With an empty optional as process identifier, \<open>AcquireProcessHandle\<close> returns
  \<open>false\<close> and leaves the object and the system as they were, whatever \<open>OpenProcess\<close>
  would do; the fresh object still holds no handle; and the constructor throws its
  exception, for every access level.
\<close>

theorem SafeMemory_process_id_empty:
  "AcquireProcessHandle api s this None processFlags = (False, this, s) \<and>
   AcquireProcessHandle (api\<lparr>OpenProcess := open'\<rparr>) s this None processFlags =
     AcquireProcessHandle api s this None processFlags \<and>
   m_processHandle
     (fst (snd (AcquireProcessHandle api s SafeMemory_members_init None processFlags))) = None \<and>
   SafeMemory_process_id api s None processFlags = (Inl failed_to_open, s) \<and>
   SafeMemory_process_id (api\<lparr>OpenProcess := open'\<rparr>) s None processFlags =
     SafeMemory_process_id api s None processFlags"
  by (simp add: AcquireProcessHandle_def SafeMemory_process_id_def SafeMemory_finish_def
      SafeMemory_dtor_members_init)
   (simp add: SafeMemory_members_init_def)

end
